theory Spec2Isabelle
  imports Complex_Main
begin

section \<open>Python values shared by the model\<close>

text \<open>
  The retrieval core of the repository is the class \<open>SATKnowledgeRAG\<close> of
  \<open>src/rag_system.py\<close>. Python strings are modelled as \<^typ>\<open>string\<close>, one list
  element per Python character, Python's unbounded integers as \<^typ>\<open>int\<close>, and
  floating-point numbers as \<^typ>\<open>real\<close> (no statement below depends on rounding).
  An exception is a value of \<open>exn\<close>; a computation that may raise returns
  \<open>exn + 'a\<close> with \<open>Inl\<close> for the raised exception.
\<close>

datatype exn = IndexError | ProviderError string | StoreError string

text \<open>\<open>xs[i]\<close> for a non-negative index: Python raises IndexError out of range.\<close>

definition py_index :: "'a list \<Rightarrow> nat \<Rightarrow> exn + 'a" where
  "py_index xs i = (if i < length xs then Inr (xs ! i) else Inl IndexError)"

text \<open>\<open>s[:n]\<close>: a negative bound counts from the end of the sequence.\<close>

definition py_slice_to :: "'a list \<Rightarrow> int \<Rightarrow> 'a list" where
  "py_slice_to xs n = (if 0 \<le> n then take (nat n) xs else take (nat (int (length xs) + n)) xs)"

text \<open>\<open>sep.join(parts)\<close>.\<close>

fun join :: "string \<Rightarrow> string list \<Rightarrow> string" where
  "join sep [] = []"
| "join sep [p] = p"
| "join sep (p # q # ps) = p @ sep @ join sep (q # ps)"

section \<open>Data model\<close>

type_synonym vector = "real list"

text \<open>A metadata dictionary, as the indexer writes it: string keys, string values.\<close>

type_synonym metadata = "(string \<times> string) list"

text \<open>\<open>d.get(key, default)\<close>.\<close>

definition md_get :: "metadata \<Rightarrow> string \<Rightarrow> string \<Rightarrow> string" where
  "md_get md key dflt = (case map_of md key of Some v \<Rightarrow> v | None \<Rightarrow> dflt)"

text \<open>The \<open>where\<close> argument of a collection query: \<open>None\<close> or a dictionary.\<close>

type_synonym where_clause = "(string \<times> string) list"

text \<open>
  What \<open>collection.query\<close> returns: parallel lists, the outer list holding one entry
  per query embedding.
\<close>

record query_result =
  qr_documents :: "string list list"
  qr_metadatas :: "metadata list list"
  qr_distances :: "real list list"

text \<open>One formatted result of \<open>search\<close> (the dictionary built in lines 269-277).\<close>

record search_result =
  sr_content :: string
  sr_metadata :: metadata
  sr_similarity_score :: real
  sr_title :: string
  sr_subject :: string
  sr_type :: string
  sr_file_path :: string

text \<open>
  The two external collaborators a query talks to: the embedding provider
  (\<open>client.models.embed_content\<close>, answering with the list \<open>result.embeddings\<close> of
  value vectors, or raising) and the vector store (\<open>collection.query\<close>, answering
  with a \<open>query_result\<close>, or raising).
\<close>

record query_env =
  embed_content :: "string \<Rightarrow> exn + vector list"
  collection_query :: "vector list \<Rightarrow> int \<Rightarrow> where_clause option \<Rightarrow> exn + query_result"

section \<open>Embeddings\<close>

text \<open>\<open>[0.0] * 768\<close>, the fallback of lines 109 and 131.\<close>

definition zero_vector :: vector where
  "zero_vector = replicate 768 0"

text \<open>\<open>result.embeddings[0].values\<close> of a provider response, inside the \<open>try\<close>.\<close>

definition first_embedding :: "exn + vector list \<Rightarrow> exn + vector" where
  "first_embedding response = (case response of Inl e \<Rightarrow> Inl e | Inr embeddings \<Rightarrow> py_index embeddings 0)"

text \<open>\<open>_generate_query_embedding\<close> (lines 123-131).\<close>

definition generate_query_embedding :: "(string \<Rightarrow> exn + vector list) \<Rightarrow> string \<Rightarrow> vector" where
  "generate_query_embedding embed_fn query =
     (case first_embedding (embed_fn query) of Inr values \<Rightarrow> values | Inl e \<Rightarrow> zero_vector)"

text \<open>
  \<open>_generate_embeddings\<close> (lines 89-111). The provider is asked once per text, in
  order; \<open>embed_fn i text\<close> is its answer to the call made at loop index \<open>i\<close>, so the
  same text may succeed at one index and fail at another. The progress message and
  the pause of lines 102-104 have no effect on the result.
\<close>

fun generate_embeddings_loop ::
  "(nat \<Rightarrow> string \<Rightarrow> exn + vector list) \<Rightarrow> nat \<Rightarrow> string list \<Rightarrow> vector list \<Rightarrow> vector list" where
  "generate_embeddings_loop embed_fn i [] embeddings = embeddings"
| "generate_embeddings_loop embed_fn i (text # texts) embeddings =
     generate_embeddings_loop embed_fn (Suc i) texts
       (embeddings @ [case first_embedding (embed_fn i text) of Inr values \<Rightarrow> values | Inl e \<Rightarrow> zero_vector])"

definition generate_embeddings :: "(nat \<Rightarrow> string \<Rightarrow> exn + vector list) \<Rightarrow> string list \<Rightarrow> vector list" where
  "generate_embeddings embed_fn texts = generate_embeddings_loop embed_fn 0 texts []"

section \<open>Search\<close>

text \<open>Lines 251-253: the filter handed to the store.\<close>

definition where_clause_of :: "string \<Rightarrow> where_clause option" where
  "where_clause_of subject_filter =
     (if subject_filter \<in> set [''math'', ''english''] then Some [(''subject'', subject_filter)] else None)"

text \<open>Lines 269-277: the dictionary for hit \<open>i\<close>; every index may raise.\<close>

definition format_result :: "query_result \<Rightarrow> nat \<Rightarrow> exn + search_result" where
  "format_result results i =
     (case py_index (qr_documents results) 0 of Inl e \<Rightarrow> Inl e | Inr docs \<Rightarrow>
     (case py_index docs i of Inl e \<Rightarrow> Inl e | Inr doc \<Rightarrow>
     (case py_index (qr_metadatas results) 0 of Inl e \<Rightarrow> Inl e | Inr mds \<Rightarrow>
     (case py_index mds i of Inl e \<Rightarrow> Inl e | Inr md \<Rightarrow>
     (case py_index (qr_distances results) 0 of Inl e \<Rightarrow> Inl e | Inr dists \<Rightarrow>
     (case py_index dists i of Inl e \<Rightarrow> Inl e | Inr distance \<Rightarrow>
        Inr \<lparr>sr_content = doc, sr_metadata = md, sr_similarity_score = 1 - distance,
             sr_title = md_get md ''title'' ''Unknown'',
             sr_subject = md_get md ''subject'' ''Unknown'',
             sr_type = md_get md ''type'' ''Unknown'',
             sr_file_path = md_get md ''file_path'' ''Unknown''\<rparr>))))))"

text \<open>Lines 268-278: the loop over \<open>range(len(results['documents'][0]))\<close>.\<close>

fun format_results :: "query_result \<Rightarrow> nat list \<Rightarrow> search_result list \<Rightarrow> exn + search_result list" where
  "format_results results [] formatted_results = Inr formatted_results"
| "format_results results (i # is) formatted_results =
     (case format_result results i of
        Inl e \<Rightarrow> Inl e
      | Inr formatted_result \<Rightarrow> format_results results is (formatted_results @ [formatted_result]))"

text \<open>Lines 266-280: the results of a query that returned, formatted.\<close>

definition format_hits :: "query_result \<Rightarrow> exn + search_result list" where
  "format_hits results =
     (case py_index (qr_documents results) 0 of
        Inl e \<Rightarrow> Inl e
      | Inr docs \<Rightarrow> if docs \<noteq> [] then format_results results [0..<length docs] [] else Inr [])"

text \<open>The body of the \<open>try\<close> of \<open>search\<close> (lines 250-280).\<close>

definition search_try :: "query_env \<Rightarrow> string \<Rightarrow> string \<Rightarrow> int \<Rightarrow> exn + search_result list" where
  "search_try env query subject_filter max_results =
     (let where_clause = where_clause_of subject_filter;
          query_embedding = generate_query_embedding (embed_content env) query
      in case collection_query env [query_embedding] max_results where_clause of
           Inl e \<Rightarrow> Inl e
         | Inr results \<Rightarrow> format_hits results)"

text \<open>
  \<open>search\<close> (lines 237-284): the handler of line 282 turns every exception of the body
  into the empty list.
\<close>

definition search :: "query_env \<Rightarrow> string \<Rightarrow> string \<Rightarrow> int \<Rightarrow> search_result list" where
  "search env query subject_filter max_results =
     (case search_try env query subject_filter max_results of Inl e \<Rightarrow> [] | Inr formatted_results \<Rightarrow> formatted_results)"

section \<open>Context assembly\<close>

text \<open>Line 307: the header of a block.\<close>

definition source_info_of :: "search_result \<Rightarrow> string" where
  "source_info_of result =
     ''Source: '' @ sr_title result @ '' ('' @ sr_subject result @ '', '' @ sr_type result @ '')''"

text \<open>Line 311: the budget left for the content of \<open>result\<close>.\<close>

definition available_length :: "int \<Rightarrow> int \<Rightarrow> search_result \<Rightarrow> int" where
  "available_length max_context_length current_length result =
     max_context_length - current_length - int (length (source_info_of result)) - 10"

text \<open>Lines 313-314: the content as it goes into the block.\<close>

definition fit_content :: "int \<Rightarrow> string \<Rightarrow> string" where
  "fit_content available content =
     (if int (length content) > available then py_slice_to content available @ ''...'' else content)"

text \<open>Line 316: the block of a result that is included.\<close>

definition block_of :: "int \<Rightarrow> search_result \<Rightarrow> string" where
  "block_of available result =
     source_info_of result @ [CHR 0x0A] @ fit_content available (sr_content result)"

text \<open>
  Lines 307-317: one iteration up to the \<open>break\<close> test, on the loop state
  \<open>(context_parts, current_length)\<close>.
\<close>

definition include_result :: "int \<Rightarrow> search_result \<Rightarrow> string list \<times> int \<Rightarrow> string list \<times> int" where
  "include_result max_context_length result st =
     (case st of (context_parts, current_length) \<Rightarrow>
        (let source_info = source_info_of result;
             available = available_length max_context_length current_length result
         in if available > 100 then
              (let content = fit_content available (sr_content result)
               in (context_parts @ [source_info @ [CHR 0x0A] @ content],
                   current_length + int (length source_info) + int (length content) + 10))
            else (context_parts, current_length)))"

text \<open>Lines 306-320: the loop, with its \<open>break\<close> once the running length reaches the maximum.\<close>

fun assemble_loop :: "int \<Rightarrow> search_result list \<Rightarrow> string list \<times> int \<Rightarrow> string list \<times> int" where
  "assemble_loop max_context_length [] st = st"
| "assemble_loop max_context_length (result # results) st =
     (let st' = include_result max_context_length result st
      in if snd st' \<ge> max_context_length then st' else assemble_loop max_context_length results st')"

text \<open>
  What the running length counts for the blocks collected so far: line 317 adds the
  lengths of header and content plus 10, which is the length of the block (header,
  line break, content) plus 9.
\<close>

definition accounted :: "string list \<Rightarrow> int" where
  "accounted ps = (\<Sum>p\<leftarrow>ps. int (length p) + 9)"

text \<open>The separator of line 322 and the message of line 301.\<close>

definition separator :: string where
  "separator = [CHR 0x0A, CHR 0x0A] @ ''---'' @ [CHR 0x0A, CHR 0x0A]"

definition no_results_message :: string where
  "no_results_message = ''No relevant information found in the knowledge base.''"

text \<open>Lines 300-322: what \<open>get_relevant_context\<close> does with the results of the search.\<close>

definition context_parts_of :: "int \<Rightarrow> search_result list \<Rightarrow> string list" where
  "context_parts_of max_context_length results = fst (assemble_loop max_context_length results ([], 0))"

definition assemble_context :: "search_result list \<Rightarrow> int \<Rightarrow> string" where
  "assemble_context results max_context_length =
     (if results = [] then no_results_message
      else join separator (context_parts_of max_context_length results))"

text \<open>\<open>get_relevant_context\<close> (lines 286-322): the search always asks for three results.\<close>

definition get_relevant_context :: "query_env \<Rightarrow> string \<Rightarrow> string \<Rightarrow> int \<Rightarrow> string" where
  "get_relevant_context env query subject_filter max_context_length =
     assemble_context (search env query subject_filter 3) max_context_length"

section \<open>Index build, construction and rebuild\<close>

text \<open>One stored tuple of the vector store.\<close>

record entry =
  e_id :: string
  e_embedding :: vector
  e_document :: string
  e_metadata :: metadata

text \<open>
  The calls the indexer makes to its collaborators, in the order they are made:
  the walk over the knowledge base that reads the documents, one embedding call per
  text, and the bulk insert.
\<close>

datatype event = ReadDocuments | EmbedCall nat string | AddCall string nat

text \<open>
  The state outside the program: the collections of the persistent store, by name,
  and the calls made so far.
\<close>

record world =
  collections :: "string \<Rightarrow> entry list option"
  trace :: "event list"

text \<open>
  What an index build finds around it: the documents, metadata and ids that the
  directory walk of lines 58-62 (\<open>_process_subject_directory\<close> and the functions below
  it) puts into its three lists, one triple per non-empty file; the provider's answer
  to each embedding call; and the error, if any, with which the store refuses a bulk
  insert.
\<close>

record build_env =
  kb_documents :: "(string \<times> metadata \<times> string) list"
  embed_at :: "nat \<Rightarrow> string \<Rightarrow> exn + vector list"
  add_error :: "entry list \<Rightarrow> exn option"

text \<open>
  Modelled from the spec: the vector store is the external library behind
  \<open>chroma_client\<close>, of which the specification (section 6) fixes the interface
  \<open>create_collection(name)\<close>, \<open>get_collection(name) -> handle|not-found\<close>,
  \<open>delete_collection(name)\<close> and \<open>add\<close> on a handle. A handle is the collection's
  name. Creating a collection that exists, and getting or deleting one that does
  not, raise.
\<close>

definition get_collection :: "world \<Rightarrow> string \<Rightarrow> exn + string" where
  "get_collection w name =
     (case collections w name of
        None \<Rightarrow> Inl (StoreError ''collection does not exist'')
      | Some es \<Rightarrow> Inr name)"

definition create_collection :: "world \<Rightarrow> string \<Rightarrow> exn + world" where
  "create_collection w name =
     (case collections w name of
        None \<Rightarrow> Inr (w\<lparr>collections := (collections w)(name \<mapsto> [])\<rparr>)
      | Some es \<Rightarrow> Inl (StoreError ''collection already exists''))"

definition delete_collection :: "world \<Rightarrow> string \<Rightarrow> exn + world" where
  "delete_collection w name =
     (case collections w name of
        None \<Rightarrow> Inl (StoreError ''collection does not exist'')
      | Some es \<Rightarrow> Inr (w\<lparr>collections := (collections w)(name := None)\<rparr>))"

text \<open>
  Modelled from the spec: \<open>collection.add\<close>, the bulk insert. The call is recorded;
  it raises when the collection is gone or the store refuses the batch, and stores
  the batch behind the entries already there otherwise.
\<close>

definition collection_add :: "build_env \<Rightarrow> world \<Rightarrow> string \<Rightarrow> entry list \<Rightarrow> world \<times> exn option" where
  "collection_add env w name batch =
     (let w' = w\<lparr>trace := trace w @ [AddCall name (length batch)]\<rparr>
      in case collections w name of
           None \<Rightarrow> (w', Some (StoreError ''collection does not exist''))
         | Some es \<Rightarrow>
             (case add_error env batch of
                Some e \<Rightarrow> (w', Some e)
              | None \<Rightarrow> (w'\<lparr>collections := (collections w)(name \<mapsto> es @ batch)\<rparr>, None)))"

text \<open>The tuples of one bulk insert, from the four parallel lists of lines 69-74.\<close>

definition entries_of :: "string list \<Rightarrow> metadata list \<Rightarrow> vector list \<Rightarrow> string list \<Rightarrow> entry list" where
  "entries_of documents metadatas embeddings ids =
     map (\<lambda>(i, v, d, m). \<lparr>e_id = i, e_embedding = v, e_document = d, e_metadata = m\<rparr>)
       (zip ids (zip embeddings (zip documents metadatas)))"

text \<open>
  The batch that lines 64-74 hand to the store: the documents found by the walk,
  each with its metadata, its id and the embedding \<open>_generate_embeddings\<close> gives it.
\<close>

definition index_batch :: "build_env \<Rightarrow> entry list" where
  "index_batch env =
     (let documents = map fst (kb_documents env);
          metadatas = map (\<lambda>t. fst (snd t)) (kb_documents env);
          ids = map (\<lambda>t. snd (snd t)) (kb_documents env);
          embeddings = generate_embeddings (embed_at env) documents
      in entries_of documents metadatas embeddings ids)"

text \<open>
  \<open>_build_knowledge_index\<close> (lines 50-77). The result is the world after the call and
  the exception that left the method, if one did: nothing in the method catches what
  \<open>collection.add\<close> raises.
\<close>

definition build_knowledge_index :: "build_env \<Rightarrow> world \<Rightarrow> string \<Rightarrow> world \<times> exn option" where
  "build_knowledge_index env w collection_name =
     (let documents = map fst (kb_documents env);
          w1 = w\<lparr>trace := trace w @ [ReadDocuments]\<rparr>
      in if documents \<noteq> [] then
           (let w2 = w1\<lparr>trace := trace w1 @ map (\<lambda>(i, text). EmbedCall i text) (enumerate 0 documents)\<rparr>
            in collection_add env w2 collection_name (index_batch env))
         else (w1, None))"

text \<open>
  The constructor, lines 41-48: the bare \<open>except\<close> takes every failure of
  \<open>get_collection\<close> as "no such collection"; what \<open>create_collection\<close> or the build
  raise leaves the constructor.
\<close>

definition init :: "build_env \<Rightarrow> world \<Rightarrow> string \<Rightarrow> world \<times> exn option" where
  "init env w collection_name =
     (case get_collection w collection_name of
        Inr collection \<Rightarrow> (w, None)
      | Inl e \<Rightarrow>
          (case create_collection w collection_name of
             Inl e' \<Rightarrow> (w, Some e')
           | Inr w' \<Rightarrow> build_knowledge_index env w' collection_name))"

text \<open>\<open>rebuild_index\<close> (lines 324-336): a failing delete is ignored.\<close>

definition rebuild_index :: "build_env \<Rightarrow> world \<Rightarrow> string \<Rightarrow> world \<times> exn option" where
  "rebuild_index env w collection_name =
     (let w1 = (case delete_collection w collection_name of Inl e \<Rightarrow> w | Inr w' \<Rightarrow> w')
      in case create_collection w1 collection_name of
           Inl e \<Rightarrow> (w1, Some e)
         | Inr w2 \<Rightarrow> build_knowledge_index env w2 collection_name)"

section \<open>Example inputs\<close>

text \<open>
  A small store for the examples: it answers a query with the first \<open>n_results\<close>
  stored documents whose metadata satisfy the filter, all at distance 0.
\<close>

definition matches_where :: "where_clause option \<Rightarrow> metadata \<Rightarrow> bool" where
  "matches_where wc md =
     (case wc of None \<Rightarrow> True | Some conds \<Rightarrow> list_all (\<lambda>(k, v). map_of md k = Some v) conds)"

definition sample_query ::
  "(string \<times> metadata) list \<Rightarrow> vector list \<Rightarrow> int \<Rightarrow> where_clause option \<Rightarrow> exn + query_result" where
  "sample_query store query_embeddings n_results wc =
     (let hits = take (nat n_results) (filter (\<lambda>(d, m). matches_where wc m) store)
      in Inr \<lparr>qr_documents = [map fst hits], qr_metadatas = [map snd hits],
              qr_distances = [map (\<lambda>h. 0) hits]\<rparr>)"

definition sample_store :: "(string \<times> metadata) list" where
  "sample_store =
     [(''Linear equations'',
         [(''subject'', ''math''), (''type'', ''topic_overview''), (''title'', ''Algebra Overview'')]),
      (''Commas'',
         [(''subject'', ''english''), (''type'', ''topic_notes''), (''title'', ''Punctuation Study Notes'')]),
      (''Circles'',
         [(''subject'', ''math''), (''type'', ''topic_notes''), (''title'', ''Geometry Study Notes'')]),
      (''Verb tense'',
         [(''subject'', ''english''), (''type'', ''topic_overview''), (''title'', ''Grammar Overview'')])]"

definition sample_env :: query_env where
  "sample_env = \<lparr>embed_content = (\<lambda>text. Inr [replicate 768 1]),
                  collection_query = sample_query sample_store\<rparr>"

definition empty_store_env :: query_env where
  "empty_store_env = \<lparr>embed_content = (\<lambda>text. Inr [replicate 768 1]),
                       collection_query = sample_query []\<rparr>"

definition failing_provider_env :: query_env where
  "failing_provider_env =
     \<lparr>embed_content = (\<lambda>text. Inl (ProviderError ''quota exceeded'')),
      collection_query = sample_query sample_store\<rparr>"

definition failing_store_env :: query_env where
  "failing_store_env =
     \<lparr>embed_content = (\<lambda>text. Inr [replicate 768 1]),
      collection_query = (\<lambda>query_embeddings n_results wc. Inl (StoreError ''query failed''))\<rparr>"

text \<open>Results with a long content, with a long title, and with neither.\<close>

definition long_content_result :: search_result where
  "long_content_result =
     \<lparr>sr_content = replicate 500 CHR ''x'', sr_metadata = [], sr_similarity_score = 1,
      sr_title = ''Algebra Overview'', sr_subject = ''math'', sr_type = ''topic_overview'',
      sr_file_path = ''Unknown''\<rparr>"

definition long_title_result :: search_result where
  "long_title_result =
     \<lparr>sr_content = ''abc'', sr_metadata = [], sr_similarity_score = 1,
      sr_title = replicate 200 CHR ''T'', sr_subject = ''math'', sr_type = ''t'',
      sr_file_path = ''Unknown''\<rparr>"

definition short_result :: search_result where
  "short_result =
     \<lparr>sr_content = ''Linear equations'', sr_metadata = [], sr_similarity_score = 1,
      sr_title = ''T'', sr_subject = ''math'', sr_type = ''t'', sr_file_path = ''Unknown''\<rparr>"

text \<open>
  A knowledge base of three documents, a provider that fails on the second call, a
  store that takes every batch and one that refuses every batch.
\<close>

definition sample_documents :: "(string \<times> metadata \<times> string) list" where
  "sample_documents =
     [(''Linear equations'', [(''subject'', ''math'')], ''id-1''),
      (''Commas'', [(''subject'', ''english'')], ''id-2''),
      (''Circles'', [(''subject'', ''math'')], ''id-3'')]"

definition flaky_embed :: "nat \<Rightarrow> string \<Rightarrow> exn + vector list" where
  "flaky_embed i text = (if i = 1 then Inl (ProviderError ''quota exceeded'') else Inr [replicate 768 1])"

definition sample_build_env :: build_env where
  "sample_build_env =
     \<lparr>kb_documents = sample_documents, embed_at = flaky_embed, add_error = (\<lambda>batch. None)\<rparr>"

definition refusing_build_env :: build_env where
  "refusing_build_env =
     \<lparr>kb_documents = sample_documents, embed_at = flaky_embed,
      add_error = (\<lambda>batch. Some (StoreError ''bulk insert failed''))\<rparr>"

definition fresh_world :: world where
  "fresh_world = \<lparr>collections = (\<lambda>name. None), trace = []\<rparr>"

definition old_entry :: entry where
  "old_entry = \<lparr>e_id = ''id-0'', e_embedding = replicate 768 1, e_document = ''Old notes'',
                 e_metadata = [(''subject'', ''math'')]\<rparr>"

definition indexed_world :: world where
  "indexed_world =
     \<lparr>collections = (\<lambda>name. if name = ''sat_knowledge'' then Some [old_entry] else None),
      trace = []\<rparr>"

section \<open>Auxiliary facts\<close>

subsection \<open>Context assembly\<close>

lemma length_join:
  "ps \<noteq> [] \<Longrightarrow>
     int (length (join sep ps)) = (\<Sum>p\<leftarrow>ps. int (length p)) + int (length sep) * (int (length ps) - 1)"
  by (induction sep ps rule: join.induct) (auto simp: algebra_simps)

lemma length_separator: "length separator = 7"
  by (simp add: separator_def)

lemma include_result_skip:
  "available_length mx c r \<le> 100 \<Longrightarrow> include_result mx r (ps, c) = (ps, c)"
  by (simp add: include_result_def Let_def)

lemma include_result_take:
  "100 < available_length mx c r \<Longrightarrow>
     include_result mx r (ps, c) =
       (ps @ [block_of (available_length mx c r) r],
        c + int (length (block_of (available_length mx c r) r)) + 9)"
  by (simp add: include_result_def Let_def block_of_def)

lemma length_fit_content:
  "0 \<le> a \<Longrightarrow> int (length (fit_content a content)) \<le> a + 3"
  by (auto simp: fit_content_def py_slice_to_def)

lemma length_block_of:
  "0 \<le> a \<Longrightarrow> int (length (block_of a r)) \<le> int (length (source_info_of r)) + 1 + a + 3"
  using length_fit_content [of a "sr_content r"] by (simp add: block_of_def)

lemma include_result_bound:
  assumes "c \<le> mx + 3"
  shows "snd (include_result mx r (ps, c)) \<le> mx + 3"
proof (cases "100 < available_length mx c r")
  case True
  then have "0 \<le> available_length mx c r" by simp
  from length_block_of [OF this, of r] True show ?thesis
    by (simp add: include_result_take available_length_def)
next
  case False
  then show ?thesis using assms by (simp add: include_result_skip)
qed

lemma include_result_accounted:
  "c = accounted ps \<Longrightarrow> snd (include_result mx r (ps, c)) = accounted (fst (include_result mx r (ps, c)))"
  by (cases "100 < available_length mx c r")
     (simp_all add: include_result_take include_result_skip accounted_def)

lemma assemble_loop_bound:
  "snd st \<le> mx + 3 \<Longrightarrow> snd (assemble_loop mx rs st) \<le> mx + 3"
proof (induction rs arbitrary: st)
  case Nil
  then show ?case by simp
next
  case (Cons r rs)
  obtain ps c where st: "st = (ps, c)" by (cases st)
  have "snd (include_result mx r st) \<le> mx + 3"
    using Cons.prems include_result_bound [of c mx r ps] by (simp add: st)
  then show ?case using Cons.IH [of "include_result mx r st"] by (simp add: Let_def)
qed

lemma assemble_loop_accounted:
  "snd st = accounted (fst st) \<Longrightarrow>
     snd (assemble_loop mx rs st) = accounted (fst (assemble_loop mx rs st))"
proof (induction rs arbitrary: st)
  case Nil
  then show ?case by simp
next
  case (Cons r rs)
  obtain ps c where st: "st = (ps, c)" by (cases st)
  have "snd (include_result mx r st) = accounted (fst (include_result mx r st))"
    using Cons.prems include_result_accounted [of c ps mx r] by (simp add: st)
  then show ?case using Cons.IH [of "include_result mx r st"] by (simp add: Let_def)
qed

lemma length_join_accounted:
  "ps \<noteq> [] \<Longrightarrow> int (length (join separator ps)) = accounted ps - 2 * int (length ps) - 7"
proof -
  assume ne: "ps \<noteq> []"
  have "accounted ps = (\<Sum>p\<leftarrow>ps. int (length p)) + 9 * int (length ps)"
    unfolding accounted_def by (induction ps) simp_all
  then show ?thesis using length_join [OF ne, of separator] by (simp add: length_separator)
qed

lemma length_context:
  assumes "0 < mx"
  shows "int (length (join separator (context_parts_of mx rs))) \<le> mx + 3"
proof (cases "context_parts_of mx rs = []")
  case True
  then show ?thesis using assms by simp
next
  case False
  have b: "snd (assemble_loop mx rs ([], 0)) \<le> mx + 3"
    using assms assemble_loop_bound [of "([], 0)" mx rs] by simp
  have a: "snd (assemble_loop mx rs ([], 0)) = accounted (context_parts_of mx rs)"
    using assemble_loop_accounted [of "([], 0)" mx rs] by (simp add: accounted_def context_parts_of_def)
  show ?thesis using length_join_accounted [OF False] a b by simp
qed

lemma assemble_loop_exhausted:
  "mx \<le> c \<Longrightarrow> assemble_loop mx rs (ps, c) = (ps, c)"
  by (cases rs) (simp_all add: include_result_skip available_length_def Let_def)

lemma assemble_loop_all_skipped:
  "\<forall>r\<in>set rs. available_length mx c r \<le> 100 \<Longrightarrow> assemble_loop mx rs (ps, c) = (ps, c)"
  by (induction rs) (simp_all add: include_result_skip Let_def)

lemma assemble_loop_prefix:
  "\<exists>more. fst (assemble_loop mx rs (ps, c)) = ps @ more"
proof (induction rs arbitrary: ps c)
  case Nil
  then show ?case by simp
next
  case (Cons r rs)
  show ?case
  proof (cases "100 < available_length mx c r")
    case True
    let ?b = "block_of (available_length mx c r) r"
    let ?c = "c + int (length ?b) + 9"
    from Cons.IH [of "ps @ [?b]" ?c] obtain more
      where "fst (assemble_loop mx rs (ps @ [?b], ?c)) = (ps @ [?b]) @ more" by blast
    then show ?thesis using True by (auto simp: include_result_take Let_def)
  next
    case False
    then show ?thesis using Cons.IH [of ps c] by (auto simp: include_result_skip Let_def)
  qed
qed

lemma length_assemble_loop:
  "length (fst (assemble_loop mx rs (ps, c))) \<le> length ps + length rs"
proof (induction rs arbitrary: ps c)
  case Nil
  then show ?case by simp
next
  case (Cons r rs)
  show ?case
  proof (cases "100 < available_length mx c r")
    case True
    then show ?thesis
      using Cons.IH [of "ps @ [block_of (available_length mx c r) r]"
                        "c + int (length (block_of (available_length mx c r) r)) + 9"]
      by (auto simp: include_result_take Let_def)
  next
    case False
    then show ?thesis using Cons.IH [of ps c] by (auto simp: include_result_skip Let_def)
  qed
qed

subsection \<open>Search\<close>

lemma format_result_Inr:
  "format_result results i = Inr r \<Longrightarrow>
     \<exists>mds. py_index (qr_metadatas results) 0 = Inr mds \<and> sr_metadata r \<in> set mds \<and>
           sr_subject r = md_get (sr_metadata r) ''subject'' ''Unknown''"
  by (auto simp: format_result_def py_index_def split: sum.splits if_splits)

lemma format_results_set:
  "format_results results is acc = Inr out \<Longrightarrow> r \<in> set out \<Longrightarrow>
     r \<in> set acc \<or> (\<exists>i. format_result results i = Inr r)"
proof (induction "is" arbitrary: acc)
  case Nil
  then show ?case by simp
next
  case (Cons i "is")
  from Cons.prems(1) obtain x where x: "format_result results i = Inr x"
    and rest: "format_results results is (acc @ [x]) = Inr out"
    by (cases "format_result results i") simp_all
  from Cons.IH [OF rest Cons.prems(2)] show ?case using x by auto
qed

lemma format_results_length:
  "format_results results is acc = Inr out \<Longrightarrow> length out = length acc + length is"
  by (induction "is" arbitrary: acc) (auto split: sum.splits)

lemma format_hits_cases:
  assumes "format_hits results = Inr out"
  obtains docs where "py_index (qr_documents results) 0 = Inr docs"
    and "if docs \<noteq> [] then format_results results [0..<length docs] [] = Inr out else out = []"
proof (cases "py_index (qr_documents results) 0")
  case (Inl e)
  then show ?thesis using assms by (simp add: format_hits_def)
next
  case (Inr docs)
  then show ?thesis using assms that [of docs] by (simp add: format_hits_def split: if_splits)
qed

lemma format_hits_metadata:
  assumes "format_hits results = Inr out" and "r \<in> set out"
  shows "\<exists>mds \<in> set (qr_metadatas results). sr_metadata r \<in> set mds \<and>
           sr_subject r = md_get (sr_metadata r) ''subject'' ''Unknown''"
proof -
  from assms(1) obtain docs where "py_index (qr_documents results) 0 = Inr docs"
    and c: "if docs \<noteq> [] then format_results results [0..<length docs] [] = Inr out else out = []"
    by (rule format_hits_cases)
  with assms(2) have "format_results results [0..<length docs] [] = Inr out"
    by (auto split: if_splits)
  from format_results_set [OF this assms(2)] obtain i where "format_result results i = Inr r"
    by auto
  from format_result_Inr [OF this] show ?thesis
    by (auto simp: py_index_def split: if_splits)
qed

lemma format_hits_length:
  assumes "format_hits results = Inr out"
  shows "\<exists>docs \<in> set (qr_documents results). length out = length docs"
proof -
  from assms obtain docs where d: "py_index (qr_documents results) 0 = Inr docs"
    and c: "if docs \<noteq> [] then format_results results [0..<length docs] [] = Inr out else out = []"
    by (rule format_hits_cases)
  have "length out = length docs"
  proof (cases "docs = []")
    case True then show ?thesis using c by simp
  next
    case False
    then have "format_results results [0..<length docs] [] = Inr out" using c by simp
    from format_results_length [OF this] show ?thesis by simp
  qed
  moreover from d have "docs \<in> set (qr_documents results)"
    by (auto simp: py_index_def split: if_splits)
  ultimately show ?thesis by blast
qed

lemma search_unfold:
  "search env query subject_filter max_results =
     (case collection_query env [generate_query_embedding (embed_content env) query] max_results
              (where_clause_of subject_filter) of
        Inl e \<Rightarrow> []
      | Inr results \<Rightarrow> (case format_hits results of Inl e \<Rightarrow> [] | Inr formatted \<Rightarrow> formatted))"
  by (simp add: search_def search_try_def Let_def split: sum.splits)


lemma sample_query_honours:
  assumes "sample_query store query_embeddings n_results (Some [(k, v)]) = Inr results"
  shows "\<forall>mds \<in> set (qr_metadatas results). \<forall>md \<in> set mds. map_of md k = Some v"
proof -
  let ?hits = "take (nat n_results) (filter (\<lambda>(d, m). matches_where (Some [(k, v)]) m) store)"
  from assms have "qr_metadatas results = [map snd ?hits]"
    by (auto simp: sample_query_def Let_def)
  moreover have "map_of md k = Some v" if "md \<in> set (map snd ?hits)" for md
  proof -
    from that obtain d where "(d, md) \<in> set ?hits" by auto
    then have "(d, md) \<in> set (filter (\<lambda>(d, m). matches_where (Some [(k, v)]) m) store)"
      by (rule in_set_takeD)
    then show ?thesis by (simp add: matches_where_def)
  qed
  ultimately show ?thesis by simp
qed

lemma sample_query_limit:
  assumes "sample_query store query_embeddings 3 wc = Inr results"
  shows "\<forall>docs \<in> set (qr_documents results). length docs \<le> 3"
  using assms by (auto simp: sample_query_def Let_def)

lemma length_context_parts_of:
  "length (context_parts_of max_context_length results) \<le> length results"
  using length_assemble_loop [of max_context_length results "[]" 0] by (simp add: context_parts_of_def)

subsection \<open>Embeddings and the index build\<close>

lemma generate_embeddings_loop_map:
  "generate_embeddings_loop embed_fn i texts embeddings =
     embeddings @ map (\<lambda>(j, text). case first_embedding (embed_fn j text) of
                                       Inr values \<Rightarrow> values | Inl e \<Rightarrow> zero_vector)
                    (enumerate i texts)"
  by (induction texts arbitrary: i embeddings) simp_all

lemma generate_embeddings_map:
  "generate_embeddings embed_fn texts =
     map (\<lambda>(j, text). case first_embedding (embed_fn j text) of
                         Inr values \<Rightarrow> values | Inl e \<Rightarrow> zero_vector)
       (enumerate 0 texts)"
  by (simp add: generate_embeddings_def generate_embeddings_loop_map)

lemma generate_embeddings_nth:
  "i < length texts \<Longrightarrow>
     generate_embeddings embed_fn texts ! i =
       (case first_embedding (embed_fn i (texts ! i)) of Inr values \<Rightarrow> values | Inl e \<Rightarrow> zero_vector)"
  by (simp add: generate_embeddings_map nth_enumerate_eq)

lemma length_generate_embeddings:
  "length (generate_embeddings embed_fn texts) = length texts"
  by (simp add: generate_embeddings_map)

lemma length_index_batch:
  "length (index_batch env) = length (kb_documents env)"
  by (simp add: index_batch_def entries_of_def Let_def length_generate_embeddings)

lemma build_knowledge_index_add:
  assumes "kb_documents env \<noteq> []" and "collections w collection_name = Some es"
  shows "snd (build_knowledge_index env w collection_name) = add_error env (index_batch env)"
    and "add_error env (index_batch env) = None \<Longrightarrow>
           collections (fst (build_knowledge_index env w collection_name)) collection_name
             = Some (es @ index_batch env)"
  using assms
  by (auto simp: build_knowledge_index_def collection_add_def Let_def split: option.splits)

lemma create_then_build:
  "collections w collection_name = None \<Longrightarrow>
     create_collection w collection_name =
       Inr (w\<lparr>collections := (collections w)(collection_name \<mapsto> [])\<rparr>)"
  by (simp add: create_collection_def)

lemma rebuild_index_unfold:
  "rebuild_index env w collection_name =
     build_knowledge_index env (w\<lparr>collections := (collections w)(collection_name \<mapsto> [])\<rparr>) collection_name"
  by (cases "collections w collection_name")
     (simp_all add: rebuild_index_def delete_collection_def create_collection_def Let_def)

lemma build_reads_documents:
  "ReadDocuments \<in> set (trace (fst (build_knowledge_index env w collection_name)))"
  by (auto simp: build_knowledge_index_def collection_add_def Let_def split: option.splits)

section \<open>Context assembly: the claims\<close>

text \<open>
  C1, as stated, fails on an empty result list: the message of line 301 has 52
  characters whatever the maximum is, so with a maximum of 1 the returned string is
  far longer than the maximum plus the three characters of a truncation marker.
\<close>

theorem context_length_counterexample:
  "search empty_store_env ''algebra'' ''all'' 3 = []
   \<and> length (get_relevant_context empty_store_env ''algebra'' ''all'' 1) = 52
   \<and> \<not> int (length (get_relevant_context empty_store_env ''algebra'' ''all'' 1)) \<le> 1 + 3"
  by code_simp

text \<open>
  C1 (amended): for every non-empty result list and every positive
  \<open>max_context_length\<close> the string returned by \<open>get_relevant_context\<close> has at most
  \<open>max_context_length + 3\<close> characters, 3 being the length of the truncation marker of
  one block; for an empty result list it is the fixed message of 52 characters; and
  once the running length meets or exceeds \<open>max_context_length\<close> the loop adds no
  further block, whatever results are left.
\<close>

theorem context_length_bound:
  assumes "0 < max_context_length"
  shows "(results \<noteq> [] \<longrightarrow> int (length (assemble_context results max_context_length)) \<le> max_context_length + 3)
       \<and> (search env query subject_filter 3 \<noteq> [] \<longrightarrow>
            int (length (get_relevant_context env query subject_filter max_context_length)) \<le> max_context_length + 3)
       \<and> (search env query subject_filter 3 = [] \<longrightarrow>
            get_relevant_context env query subject_filter max_context_length = no_results_message
            \<and> length no_results_message = 52)
       \<and> (max_context_length \<le> current_length \<longrightarrow>
            assemble_loop max_context_length rest (context_parts, current_length) = (context_parts, current_length))"
  using assms length_context [OF assms]
  by (simp add: assemble_context_def get_relevant_context_def assemble_loop_exhausted no_results_message_def)

theorem context_length_bound_witness:
  "(0::int) < 200
   \<and> [long_content_result] \<noteq> []
   \<and> int (length (assemble_context [long_content_result] 200)) \<le> 200 + 3
   \<and> search sample_env ''algebra'' ''all'' 3 \<noteq> []
   \<and> int (length (get_relevant_context sample_env ''algebra'' ''all'' 200)) \<le> 200 + 3
   \<and> search empty_store_env ''algebra'' ''all'' 3 = []
   \<and> get_relevant_context empty_store_env ''algebra'' ''all'' 200 = no_results_message
   \<and> (200::int) \<le> 203
   \<and> assemble_loop 200 [short_result] ([''block''], 203) = ([''block''], 203)"
proof -
  have s: "search sample_env ''algebra'' ''all'' 3 \<noteq> []" by code_simp
  have e: "search empty_store_env ''algebra'' ''all'' 3 = []" by code_simp
  from context_length_bound [of 200 "[long_content_result]" sample_env "''algebra''" "''all''" 203 "[short_result]" "[''block'']"]
    context_length_bound [of 200 "[long_content_result]" empty_store_env "''algebra''" "''all''" 203 "[short_result]" "[''block'']"]
    s e
  show ?thesis by simp
qed

text \<open>
  C3, as stated, names a string the code never returns: the message of line 301 is
  another one.
\<close>

theorem no_results_counterexample:
  "search empty_store_env ''algebra'' ''all'' 3 = []
   \<and> get_relevant_context empty_store_env ''algebra'' ''all'' 500 \<noteq> ''no relevant information found''"
  by code_simp

text \<open>
  C3 (amended): when the search yields an empty result list, \<open>get_relevant_context\<close>
  returns exactly the fixed string
  \<open>No relevant information found in the knowledge base.\<close>, for every query, subject
  filter and \<open>max_context_length\<close>.
\<close>

theorem no_results_message_returned:
  assumes "search env query subject_filter 3 = []"
  shows "get_relevant_context env query subject_filter max_context_length =
           ''No relevant information found in the knowledge base.''"
  using assms by (simp add: get_relevant_context_def assemble_context_def no_results_message_def)

theorem no_results_message_returned_witness:
  "search failing_store_env ''algebra'' ''math'' 3 = []
   \<and> get_relevant_context failing_store_env ''algebra'' ''math'' 2000 =
       ''No relevant information found in the knowledge base.''"
proof -
  have e: "search failing_store_env ''algebra'' ''math'' 3 = []" by code_simp
  from no_results_message_returned [OF e, of 2000] e show ?thesis by simp
qed

text \<open>
  C4, as stated, fails: a result whose budget is at most 100 is left out, but the
  loop goes on, and a later result with a shorter header is included. Here the first
  result has a header of 218 characters and a budget of 72 out of 300.
\<close>

theorem budget_stop_counterexample:
  "available_length 300 0 long_title_result \<le> 100
   \<and> context_parts_of 300 [long_title_result, short_result] =
       [''Source: T (math, t)'' @ [CHR 0x0A] @ ''Linear equations'']
   \<and> assemble_context [long_title_result, short_result] 300 =
       ''Source: T (math, t)'' @ [CHR 0x0A] @ ''Linear equations''"
  by code_simp

text \<open>
  C4 (amended): when a result's available budget (\<open>max_context_length\<close> minus the
  running length minus the length of its header minus 10) is at most 100, that
  result is not included and the loop state is unchanged; the loop then ends only if
  the running length has reached \<open>max_context_length\<close>, and otherwise goes on with the
  results that follow, each judged by its own budget.
\<close>

theorem budget_skip:
  assumes "available_length max_context_length current_length result \<le> 100"
  shows "include_result max_context_length result (context_parts, current_length) = (context_parts, current_length)
       \<and> assemble_loop max_context_length (result # rest) (context_parts, current_length) =
           (if max_context_length \<le> current_length then (context_parts, current_length)
            else assemble_loop max_context_length rest (context_parts, current_length))"
  using assms by (simp add: include_result_skip Let_def)

theorem budget_skip_witness:
  "available_length 300 0 long_title_result \<le> 100
   \<and> include_result 300 long_title_result ([], 0) = ([], 0)
   \<and> assemble_loop 300 [long_title_result, short_result] ([], 0) = assemble_loop 300 [short_result] ([], 0)"
proof -
  have a: "available_length 300 0 long_title_result \<le> 100" by code_simp
  from budget_skip [OF a, of "[]" "[short_result]"] a show ?thesis by simp
qed

text \<open>
  C7, as stated, fails below the budget gate of line 312. With a maximum of 120 the
  first example has a budget of 63 and a content of 500 characters, and is left out
  rather than truncated; the second has a budget of 91 and a content of 16
  characters, which fits, and is left out rather than included.
\<close>

theorem truncation_counterexample:
  "available_length 120 0 long_content_result = 63
   \<and> int (length (sr_content long_content_result)) > available_length 120 0 long_content_result
   \<and> context_parts_of 120 [long_content_result] = []
   \<and> assemble_context [long_content_result] 120 = []
   \<and> available_length 120 0 short_result = 91
   \<and> int (length (sr_content short_result)) \<le> available_length 120 0 short_result
   \<and> context_parts_of 120 [short_result] = []
   \<and> assemble_context [short_result] 120 = []"
  by code_simp

text \<open>
  C7 (amended): a result that is included (its budget exceeds 100) and whose content is
  strictly longer than the budget contributes the block made of its header, a line
  break, exactly the first \<open>available\<close> characters of the content and the marker
  \<open>...\<close>; one whose content has at most \<open>available\<close> characters contributes its
  header, a line break and the content unchanged. The block is the next element of
  the list of parts that is joined into the output.
\<close>

theorem truncation_boundary:
  assumes "100 < available_length max_context_length current_length result"
  shows "(\<exists>more. fst (assemble_loop max_context_length (result # rest) (context_parts, current_length)) =
            context_parts @ [block_of (available_length max_context_length current_length result) result] @ more)
       \<and> (int (length (sr_content result)) > available_length max_context_length current_length result \<longrightarrow>
            block_of (available_length max_context_length current_length result) result =
              source_info_of result @ [CHR 0x0A]
              @ take (nat (available_length max_context_length current_length result)) (sr_content result) @ ''...''
            \<and> int (length (take (nat (available_length max_context_length current_length result)) (sr_content result)))
                = available_length max_context_length current_length result)
       \<and> (int (length (sr_content result)) \<le> available_length max_context_length current_length result \<longrightarrow>
            block_of (available_length max_context_length current_length result) result =
              source_info_of result @ [CHR 0x0A] @ sr_content result)"
proof -
  let ?a = "available_length max_context_length current_length result"
  let ?b = "block_of ?a result"
  let ?c = "current_length + int (length ?b) + 9"
  have step: "include_result max_context_length result (context_parts, current_length) = (context_parts @ [?b], ?c)"
    using assms by (rule include_result_take)
  obtain more where "fst (assemble_loop max_context_length rest (context_parts @ [?b], ?c)) = (context_parts @ [?b]) @ more"
    using assemble_loop_prefix [of max_context_length rest "context_parts @ [?b]" ?c] by blast
  then have "\<exists>more. fst (assemble_loop max_context_length (result # rest) (context_parts, current_length)) =
                 context_parts @ [?b] @ more"
    by (cases "max_context_length \<le> ?c") (simp_all add: step Let_def)
  moreover have "0 \<le> ?a" using assms by simp
  ultimately show ?thesis
    by (simp add: block_of_def fit_content_def py_slice_to_def)
qed

theorem truncation_boundary_witness:
  "100 < available_length 200 0 long_content_result
   \<and> int (length (sr_content long_content_result)) > available_length 200 0 long_content_result
   \<and> fst (assemble_loop 200 [long_content_result] ([], 0)) =
       [''Source: Algebra Overview (math, topic_overview)'' @ [CHR 0x0A] @ replicate 143 CHR ''x'' @ ''...'']
   \<and> 100 < available_length 200 0 short_result
   \<and> int (length (sr_content short_result)) \<le> available_length 200 0 short_result
   \<and> fst (assemble_loop 200 [short_result] ([], 0)) =
       [''Source: T (math, t)'' @ [CHR 0x0A] @ ''Linear equations'']"
proof -
  have a: "100 < available_length 200 0 long_content_result" by code_simp
  have b: "100 < available_length 200 0 short_result" by code_simp
  have l: "int (length (sr_content long_content_result)) > available_length 200 0 long_content_result" by code_simp
  have m: "int (length (sr_content short_result)) \<le> available_length 200 0 short_result" by code_simp
  have x: "fst (assemble_loop 200 [long_content_result] ([], 0)) =
       [''Source: Algebra Overview (math, topic_overview)'' @ [CHR 0x0A] @ replicate 143 CHR ''x'' @ ''...'']"
    by code_simp
  have y: "fst (assemble_loop 200 [short_result] ([], 0)) =
       [''Source: T (math, t)'' @ [CHR 0x0A] @ ''Linear equations'']"
    by code_simp
  from truncation_boundary [OF a, of "[]" "[]"] truncation_boundary [OF b, of "[]" "[]"] a b l m x y
  show ?thesis by simp
qed

text \<open>
  C10: when the search returns a non-empty result list and every result has an
  available budget of at most 100, \<open>get_relevant_context\<close> returns the empty string,
  which is not the message returned for an empty result list.
\<close>

theorem all_excluded_gives_empty_string:
  assumes "search env query subject_filter 3 \<noteq> []"
    and "\<forall>result \<in> set (search env query subject_filter 3). available_length max_context_length 0 result \<le> 100"
  shows "get_relevant_context env query subject_filter max_context_length = []
       \<and> get_relevant_context env query subject_filter max_context_length \<noteq> no_results_message"
  using assms assemble_loop_all_skipped [of "search env query subject_filter 3" max_context_length 0 "[]"]
  by (simp add: get_relevant_context_def assemble_context_def context_parts_of_def no_results_message_def)

theorem all_excluded_gives_empty_string_witness:
  "search sample_env ''algebra'' ''all'' 3 \<noteq> []
   \<and> list_all (\<lambda>result. available_length 100 0 result \<le> 100) (search sample_env ''algebra'' ''all'' 3)
   \<and> get_relevant_context sample_env ''algebra'' ''all'' 100 = []"
proof -
  have n: "search sample_env ''algebra'' ''all'' 3 \<noteq> []" by code_simp
  have l: "list_all (\<lambda>result. available_length 100 0 result \<le> 100) (search sample_env ''algebra'' ''all'' 3)"
    by code_simp
  then have b: "\<forall>result \<in> set (search sample_env ''algebra'' ''all'' 3). available_length 100 0 result \<le> 100"
    by (simp add: list_all_iff)
  from all_excluded_gives_empty_string [OF n b] n l show ?thesis by simp
qed

section \<open>Search: the claims\<close>

text \<open>
  C2: with \<open>subject_filter\<close> equal to \<open>math\<close> or \<open>english\<close>, \<open>search\<close> hands the store
  the equality filter on the metadata key \<open>subject\<close>, and, the store honouring that
  filter, every result it returns carries that subject, in its metadata and in its
  \<open>subject\<close> field, for every query and every \<open>max_results\<close>; with \<open>all\<close> the store
  is queried without a filter.
\<close>

theorem search_subject_filter:
  assumes "subject_filter = ''math'' \<or> subject_filter = ''english''"
    and "\<And>query_embeddings results.
           collection_query env query_embeddings max_results (Some [(''subject'', subject_filter)]) = Inr results
           \<Longrightarrow> \<forall>mds \<in> set (qr_metadatas results). \<forall>md \<in> set mds. map_of md ''subject'' = Some subject_filter"
  shows "search env query subject_filter max_results =
           (case collection_query env [generate_query_embedding (embed_content env) query] max_results
                   (Some [(''subject'', subject_filter)]) of
              Inl e \<Rightarrow> []
            | Inr results \<Rightarrow> (case format_hits results of Inl e \<Rightarrow> [] | Inr formatted \<Rightarrow> formatted))
         \<and> (\<forall>r \<in> set (search env query subject_filter max_results).
               map_of (sr_metadata r) ''subject'' = Some subject_filter \<and> sr_subject r = subject_filter)
         \<and> search env query ''all'' max_results =
           (case collection_query env [generate_query_embedding (embed_content env) query] max_results None of
              Inl e \<Rightarrow> []
            | Inr results \<Rightarrow> (case format_hits results of Inl e \<Rightarrow> [] | Inr formatted \<Rightarrow> formatted))"
proof -
  have w: "where_clause_of subject_filter = Some [(''subject'', subject_filter)]"
    using assms(1) by (auto simp: where_clause_of_def)
  have a: "where_clause_of ''all'' = None"
    by (simp add: where_clause_of_def)
  have "map_of (sr_metadata r) ''subject'' = Some subject_filter \<and> sr_subject r = subject_filter"
    if r: "r \<in> set (search env query subject_filter max_results)" for r
  proof -
    let ?q = "collection_query env [generate_query_embedding (embed_content env) query] max_results
                  (Some [(''subject'', subject_filter)])"
    from r obtain results where q: "?q = Inr results"
      by (cases ?q) (simp_all add: search_unfold w)
    from r q obtain out where f: "format_hits results = Inr out"
      by (cases "format_hits results") (simp_all add: search_unfold w)
    from r q f have m: "r \<in> set out" by (simp add: search_unfold w)
    from format_hits_metadata [OF f m] obtain mds
      where "mds \<in> set (qr_metadatas results)" "sr_metadata r \<in> set mds"
        and s: "sr_subject r = md_get (sr_metadata r) ''subject'' ''Unknown''" by blast
    with assms(2) [OF q] have "map_of (sr_metadata r) ''subject'' = Some subject_filter" by blast
    then show ?thesis using s by (simp add: md_get_def)
  qed
  then show ?thesis by (simp add: search_unfold w a)
qed

theorem search_subject_filter_witness:
  "map sr_subject (search sample_env ''algebra'' ''math'' 5) = [''math'', ''math'']
   \<and> list_all (\<lambda>r. map_of (sr_metadata r) ''subject'' = Some ''math'' \<and> sr_subject r = ''math'')
        (search sample_env ''algebra'' ''math'' 5)
   \<and> map sr_subject (search sample_env ''algebra'' ''all'' 5) = [''math'', ''english'', ''math'', ''english'']"
proof -
  have h: "\<forall>mds \<in> set (qr_metadatas results). \<forall>md \<in> set mds. map_of md ''subject'' = Some ''math''"
    if "collection_query sample_env query_embeddings 5 (Some [(''subject'', ''math'')]) = Inr results"
    for query_embeddings results
    using that sample_query_honours [of sample_store query_embeddings 5 "''subject''" "''math''" results]
    by (simp add: sample_env_def)
  have m: "map sr_subject (search sample_env ''algebra'' ''math'' 5) = [''math'', ''math'']"
    by code_simp
  have a: "map sr_subject (search sample_env ''algebra'' ''all'' 5) = [''math'', ''english'', ''math'', ''english'']"
    by code_simp
  from search_subject_filter [of "''math''" sample_env 5 "''algebra''", OF _ h] m a
  show ?thesis by (simp add: list_all_iff)
qed

text \<open>
  C9: whatever \<open>max_context_length\<close> is, \<open>get_relevant_context\<close> searches with
  \<open>max_results = 3\<close>, so that the store is asked for 3 results; the store returning at
  most the 3 documents it is asked for, the search yields at most 3 results and the
  context is the join of at most 3 source blocks (or the message for no results).
\<close>

theorem context_has_at_most_three_blocks:
  assumes "\<And>query_embeddings wc results.
             collection_query env query_embeddings 3 wc = Inr results
             \<Longrightarrow> \<forall>docs \<in> set (qr_documents results). length docs \<le> 3"
  shows "search env query subject_filter 3 =
           (case collection_query env [generate_query_embedding (embed_content env) query] 3
                   (where_clause_of subject_filter) of
              Inl e \<Rightarrow> []
            | Inr results \<Rightarrow> (case format_hits results of Inl e \<Rightarrow> [] | Inr formatted \<Rightarrow> formatted))
       \<and> length (search env query subject_filter 3) \<le> 3
       \<and> length (context_parts_of max_context_length (search env query subject_filter 3)) \<le> 3
       \<and> get_relevant_context env query subject_filter max_context_length =
           (if search env query subject_filter 3 = [] then no_results_message
            else join separator (context_parts_of max_context_length (search env query subject_filter 3)))"
proof -
  let ?q = "collection_query env [generate_query_embedding (embed_content env) query] 3
              (where_clause_of subject_filter)"
  have len: "length (search env query subject_filter 3) \<le> 3"
  proof (cases ?q)
    case (Inl e)
    then show ?thesis by (simp add: search_unfold)
  next
    case (Inr results)
    show ?thesis
    proof (cases "format_hits results")
      case (Inl e)
      then show ?thesis using Inr by (simp add: search_unfold)
    next
      case out: (Inr out)
      from format_hits_length [OF out] obtain docs
        where "docs \<in> set (qr_documents results)" "length out = length docs" by blast
      with assms [OF Inr] have "length out \<le> 3" by auto
      then show ?thesis using Inr out by (simp add: search_unfold)
    qed
  qed
  have "length (context_parts_of max_context_length (search env query subject_filter 3)) \<le> 3"
    using length_context_parts_of [of max_context_length "search env query subject_filter 3"] len
    by linarith
  then show ?thesis
    using len search_unfold [of env query subject_filter 3]
    by (simp add: get_relevant_context_def assemble_context_def)
qed

theorem context_has_at_most_three_blocks_witness:
  "length (search sample_env ''algebra'' ''all'' 3) = 3
   \<and> length (context_parts_of 2000 (search sample_env ''algebra'' ''all'' 3)) = 3
   \<and> length (context_parts_of 2000 (search sample_env ''algebra'' ''all'' 3)) \<le> 3
   \<and> get_relevant_context sample_env ''algebra'' ''all'' 2000 =
       join separator (context_parts_of 2000 (search sample_env ''algebra'' ''all'' 3))"
proof -
  have h: "\<forall>docs \<in> set (qr_documents results). length docs \<le> 3"
    if "collection_query sample_env query_embeddings 3 wc = Inr results"
    for query_embeddings wc results
    using that sample_query_limit [of sample_store query_embeddings wc results]
    by (simp add: sample_env_def)
  have l: "length (search sample_env ''algebra'' ''all'' 3) = 3" by code_simp
  have p: "length (context_parts_of 2000 (search sample_env ''algebra'' ''all'' 3)) = 3" by code_simp
  have n: "search sample_env ''algebra'' ''all'' 3 \<noteq> []" using l by auto
  from context_has_at_most_three_blocks [of sample_env "''algebra''" "''all''" 2000, OF h] l p n
  show ?thesis by simp
qed

section \<open>Embeddings, index build and construction: the claims\<close>

text \<open>
  C5: for every list of texts \<open>_generate_embeddings\<close> returns exactly one vector per
  text, in order. A text whose embedding call fails gets the vector of 768 zeros; a
  text whose call succeeds gets the provider's values, whatever happened to the
  texts before it. Where the provider's vectors have 768 entries, as the code
  assumes of it, every vector of the result has 768 entries.
\<close>

theorem generate_embeddings_total:
  "length (generate_embeddings embed_fn texts) = length texts
   \<and> (\<forall>i < length texts. \<forall>e. first_embedding (embed_fn i (texts ! i)) = Inl e \<longrightarrow>
        generate_embeddings embed_fn texts ! i = replicate 768 0)
   \<and> (\<forall>i < length texts. \<forall>values. first_embedding (embed_fn i (texts ! i)) = Inr values \<longrightarrow>
        generate_embeddings embed_fn texts ! i = values)
   \<and> ((\<forall>i < length texts. \<forall>values. first_embedding (embed_fn i (texts ! i)) = Inr values \<longrightarrow>
         length values = 768)
       \<longrightarrow> (\<forall>v \<in> set (generate_embeddings embed_fn texts). length v = 768))"
proof -
  have dims: "length v = 768"
    if ok: "\<forall>i < length texts. \<forall>values. first_embedding (embed_fn i (texts ! i)) = Inr values \<longrightarrow>
              length values = 768"
      and v: "v \<in> set (generate_embeddings embed_fn texts)" for v
  proof -
    from v obtain i where i: "i < length texts" and "generate_embeddings embed_fn texts ! i = v"
      by (auto simp: in_set_conv_nth length_generate_embeddings)
    then have "v = (case first_embedding (embed_fn i (texts ! i)) of
                      Inr values \<Rightarrow> values | Inl e \<Rightarrow> zero_vector)"
      by (simp add: generate_embeddings_nth)
    then show ?thesis using ok i
      by (cases "first_embedding (embed_fn i (texts ! i))") (simp_all add: zero_vector_def)
  qed
  show ?thesis
    using dims by (simp add: length_generate_embeddings generate_embeddings_nth zero_vector_def)
qed

theorem generate_embeddings_total_witness:
  "length (generate_embeddings flaky_embed [''Linear equations'', ''Commas'', ''Circles'']) = 3
   \<and> first_embedding (flaky_embed 1 ''Commas'') = Inl (ProviderError ''quota exceeded'')
   \<and> generate_embeddings flaky_embed [''Linear equations'', ''Commas'', ''Circles''] ! 1 = replicate 768 0
   \<and> first_embedding (flaky_embed 2 ''Circles'') = Inr (replicate 768 1)
   \<and> generate_embeddings flaky_embed [''Linear equations'', ''Commas'', ''Circles''] ! 2 = replicate 768 1
   \<and> map length (generate_embeddings flaky_embed [''Linear equations'', ''Commas'', ''Circles'']) = [768, 768, 768]"
proof -
  let ?texts = "[''Linear equations'', ''Commas'', ''Circles'']"
  have f: "first_embedding (flaky_embed 1 ''Commas'') = Inl (ProviderError ''quota exceeded'')"
    by (simp add: first_embedding_def flaky_embed_def)
  have s: "first_embedding (flaky_embed 2 ''Circles'') = Inr (replicate 768 1)"
    by (simp add: first_embedding_def flaky_embed_def py_index_def)
  have g: "generate_embeddings flaky_embed ?texts = [replicate 768 1, replicate 768 0, replicate 768 1]"
    by (simp add: generate_embeddings_def first_embedding_def flaky_embed_def py_index_def zero_vector_def)
  from generate_embeddings_total [of flaky_embed ?texts] f s g
  show ?thesis by simp
qed

text \<open>
  C6, as stated, fails for \<open>search\<close>: an error of the store's query is caught by the
  handler of line 282, and the caller gets the empty list, the very value a store
  without documents gives.
\<close>

theorem store_failure_counterexample:
  "collection_query failing_store_env
     [generate_query_embedding (embed_content failing_store_env) ''algebra''] 5 (where_clause_of ''all'')
     = Inl (StoreError ''query failed'')
   \<and> search_try failing_store_env ''algebra'' ''all'' 5 = Inl (StoreError ''query failed'')
   \<and> search failing_store_env ''algebra'' ''all'' 5 = []
   \<and> search empty_store_env ''algebra'' ''all'' 5 = []"
  by (simp add: search_def search_try_def failing_store_env_def empty_store_env_def sample_query_def
        format_hits_def py_index_def Let_def)

text \<open>
  C6 (amended): failures of the embedding provider are caught per text and are
  never fatal: an index build whose bulk insert the store accepts ends without an
  exception and has stored one entry per document, whatever the provider answered,
  and a search whose query embedding fails queries the store with the zero vector.
  A failure of the store during the index build (the bulk insert refused) leaves
  \<open>_build_knowledge_index\<close> as that exception. A failure of the store during a
  search is not surfaced: \<open>search\<close> returns the empty list.
\<close>

theorem provider_and_store_failures:
  "(kb_documents benv \<noteq> [] \<and> collections w collection_name = Some es
      \<and> add_error benv (index_batch benv) = None \<longrightarrow>
        snd (build_knowledge_index benv w collection_name) = None
        \<and> collections (fst (build_knowledge_index benv w collection_name)) collection_name
            = Some (es @ index_batch benv)
        \<and> length (index_batch benv) = length (kb_documents benv))
   \<and> (kb_documents benv \<noteq> [] \<and> collections w collection_name = Some es
      \<and> add_error benv (index_batch benv) = Some e \<longrightarrow>
        snd (build_knowledge_index benv w collection_name) = Some e)
   \<and> (first_embedding (embed_content env query) = Inl e' \<longrightarrow>
        search_try env query subject_filter max_results =
          (case collection_query env [zero_vector] max_results (where_clause_of subject_filter) of
             Inl e \<Rightarrow> Inl e | Inr results \<Rightarrow> format_hits results))
   \<and> (collection_query env [generate_query_embedding (embed_content env) query] max_results
         (where_clause_of subject_filter) = Inl e'' \<longrightarrow>
        search env query subject_filter max_results = [])"
  using build_knowledge_index_add [of benv w collection_name es]
  by (simp add: length_index_batch search_unfold search_try_def generate_query_embedding_def Let_def)

theorem provider_and_store_failures_witness:
  "kb_documents sample_build_env \<noteq> []
   \<and> collections indexed_world ''sat_knowledge'' = Some [old_entry]
   \<and> add_error sample_build_env (index_batch sample_build_env) = None
   \<and> snd (build_knowledge_index sample_build_env indexed_world ''sat_knowledge'') = None
   \<and> collections (fst (build_knowledge_index sample_build_env indexed_world ''sat_knowledge'')) ''sat_knowledge''
       = Some ([old_entry] @ index_batch sample_build_env)
   \<and> map e_embedding (index_batch sample_build_env) = [replicate 768 1, replicate 768 0, replicate 768 1]
   \<and> kb_documents refusing_build_env \<noteq> []
   \<and> add_error refusing_build_env (index_batch refusing_build_env) = Some (StoreError ''bulk insert failed'')
   \<and> snd (build_knowledge_index refusing_build_env indexed_world ''sat_knowledge'')
       = Some (StoreError ''bulk insert failed'')
   \<and> first_embedding (embed_content failing_provider_env ''algebra'') = Inl (ProviderError ''quota exceeded'')
   \<and> search_try failing_provider_env ''algebra'' ''math'' 5 =
       (case collection_query failing_provider_env [zero_vector] 5 (where_clause_of ''math'') of
          Inl e \<Rightarrow> Inl e | Inr results \<Rightarrow> format_hits results)
   \<and> map sr_content (search failing_provider_env ''algebra'' ''math'' 5) = [''Linear equations'', ''Circles'']
   \<and> collection_query failing_store_env
        [generate_query_embedding (embed_content failing_store_env) ''algebra''] 5 (where_clause_of ''all'')
       = Inl (StoreError ''query failed'')
   \<and> search failing_store_env ''algebra'' ''all'' 5 = []"
proof -
  have k: "kb_documents sample_build_env \<noteq> []" "kb_documents refusing_build_env \<noteq> []"
    by (simp_all add: sample_build_env_def refusing_build_env_def sample_documents_def)
  have c: "collections indexed_world ''sat_knowledge'' = Some [old_entry]"
    by (simp add: indexed_world_def)
  have a: "add_error sample_build_env (index_batch sample_build_env) = None"
    by (simp add: sample_build_env_def)
  have r: "add_error refusing_build_env (index_batch refusing_build_env) = Some (StoreError ''bulk insert failed'')"
    by (simp add: refusing_build_env_def)
  have v: "map e_embedding (index_batch sample_build_env) = [replicate 768 1, replicate 768 0, replicate 768 1]"
    by (simp add: index_batch_def entries_of_def sample_build_env_def sample_documents_def
          generate_embeddings_def first_embedding_def flaky_embed_def py_index_def zero_vector_def)
  have f: "first_embedding (embed_content failing_provider_env ''algebra'') = Inl (ProviderError ''quota exceeded'')"
    by (simp add: first_embedding_def failing_provider_env_def)
  have s: "map sr_content (search failing_provider_env ''algebra'' ''math'' 5) = [''Linear equations'', ''Circles'']"
    by code_simp
  have q: "collection_query failing_store_env
             [generate_query_embedding (embed_content failing_store_env) ''algebra''] 5 (where_clause_of ''all'')
           = Inl (StoreError ''query failed'')"
    by (simp add: failing_store_env_def)
  from provider_and_store_failures
         [of sample_build_env indexed_world "''sat_knowledge''" "[old_entry]" "StoreError ''x''"
             failing_provider_env "''algebra''" "ProviderError ''quota exceeded''" "''math''" 5 "StoreError ''x''"]
       provider_and_store_failures
         [of refusing_build_env indexed_world "''sat_knowledge''" "[old_entry]" "StoreError ''bulk insert failed''"
             failing_store_env "''algebra''" "ProviderError ''x''" "''all''" 5 "StoreError ''query failed''"]
       k c a r v f s q
  show ?thesis by simp
qed

text \<open>
  C8: when the backing collection exists at construction, the constructor leaves the
  world as it found it: the collections are unchanged and no call is added to the
  trace, so no document is read, embedded or added. When the collection does not
  exist it is created empty and the index build runs on it; \<open>rebuild_index\<close> replaces
  the collection by an empty one and runs the build on that. Every run of the build
  reads the documents.
\<close>

theorem build_only_without_collection:
  "(collections w collection_name = Some es \<longrightarrow> init env w collection_name = (w, None))
   \<and> (collections w collection_name = None \<longrightarrow>
        init env w collection_name =
          build_knowledge_index env (w\<lparr>collections := (collections w)(collection_name \<mapsto> [])\<rparr>) collection_name)
   \<and> rebuild_index env w collection_name =
        build_knowledge_index env (w\<lparr>collections := (collections w)(collection_name \<mapsto> [])\<rparr>) collection_name
   \<and> ReadDocuments \<in> set (trace (fst (build_knowledge_index env w collection_name)))"
  by (simp add: init_def get_collection_def create_collection_def rebuild_index_unfold build_reads_documents)

theorem build_only_without_collection_witness:
  "collections indexed_world ''sat_knowledge'' = Some [old_entry]
   \<and> init sample_build_env indexed_world ''sat_knowledge'' = (indexed_world, None)
   \<and> trace (fst (init sample_build_env indexed_world ''sat_knowledge'')) = []
   \<and> collections fresh_world ''sat_knowledge'' = None
   \<and> trace (fst (init sample_build_env fresh_world ''sat_knowledge'')) =
       [ReadDocuments, EmbedCall 0 ''Linear equations'', EmbedCall 1 ''Commas'', EmbedCall 2 ''Circles'',
        AddCall ''sat_knowledge'' 3]
   \<and> map e_document (the (collections (fst (init sample_build_env fresh_world ''sat_knowledge'')) ''sat_knowledge''))
       = [''Linear equations'', ''Commas'', ''Circles'']
   \<and> map e_document (the (collections (fst (rebuild_index sample_build_env indexed_world ''sat_knowledge'')) ''sat_knowledge''))
       = [''Linear equations'', ''Commas'', ''Circles'']"
proof -
  have c: "collections indexed_world ''sat_knowledge'' = Some [old_entry]"
    by (simp add: indexed_world_def)
  have n: "collections fresh_world ''sat_knowledge'' = None"
    by (simp add: fresh_world_def)
  have t: "trace (fst (build_knowledge_index sample_build_env
             (fresh_world\<lparr>collections := (collections fresh_world)(''sat_knowledge'' \<mapsto> [])\<rparr>) ''sat_knowledge'')) =
       [ReadDocuments, EmbedCall 0 ''Linear equations'', EmbedCall 1 ''Commas'', EmbedCall 2 ''Circles'',
        AddCall ''sat_knowledge'' 3]"
    by (simp add: build_knowledge_index_def collection_add_def Let_def fresh_world_def sample_build_env_def
          sample_documents_def length_index_batch enumerate_eq_zip upt_rec)
  have d: "map e_document (index_batch sample_build_env) = [''Linear equations'', ''Commas'', ''Circles'']"
    by (simp add: index_batch_def entries_of_def sample_build_env_def sample_documents_def
          generate_embeddings_def)
  have k: "kb_documents sample_build_env \<noteq> []"
    by (simp add: sample_build_env_def sample_documents_def)
  have a: "add_error sample_build_env (index_batch sample_build_env) = None"
    by (simp add: sample_build_env_def)
  have b: "collections (fst (build_knowledge_index sample_build_env
             (w\<lparr>collections := (collections w)(''sat_knowledge'' \<mapsto> [])\<rparr>) ''sat_knowledge'')) ''sat_knowledge''
           = Some (index_batch sample_build_env)" for w
    using build_knowledge_index_add(2) [of sample_build_env
             "w\<lparr>collections := (collections w)(''sat_knowledge'' \<mapsto> [])\<rparr>" "''sat_knowledge''" "[]"] k a
    by simp
  have i1: "init sample_build_env indexed_world ''sat_knowledge'' = (indexed_world, None)"
    using build_only_without_collection [of indexed_world "''sat_knowledge''" "[old_entry]" sample_build_env] c
    by simp
  have i2: "init sample_build_env fresh_world ''sat_knowledge'' =
              build_knowledge_index sample_build_env
                (fresh_world\<lparr>collections := (collections fresh_world)(''sat_knowledge'' \<mapsto> [])\<rparr>) ''sat_knowledge''"
    using build_only_without_collection [of fresh_world "''sat_knowledge''" "[old_entry]" sample_build_env] n
    by simp
  have i3: "rebuild_index sample_build_env indexed_world ''sat_knowledge'' =
              build_knowledge_index sample_build_env
                (indexed_world\<lparr>collections := (collections indexed_world)(''sat_knowledge'' \<mapsto> [])\<rparr>) ''sat_knowledge''"
    using build_only_without_collection [of indexed_world "''sat_knowledge''" "[old_entry]" sample_build_env]
    by simp
  have e: "trace indexed_world = []"
    by (simp add: indexed_world_def)
  show ?thesis
    by (simp add: i1 i2 i3 c n t d b e)
qed

end
